theory Spec2Isabelle
  imports Complex_Main
begin

section \<open>Numbers of the Price column\<close>

text \<open>
  The Price column holds float64 values: a finite value (\<open>Fin\<close>, with the real number it
  denotes), \<open>inf\<close>, \<open>-inf\<close> or \<open>nan\<close>. Every arithmetic operation on finite values
  computes the exact result and rounds it to the nearest float64 (\<open>rnd\<close>), as IEEE 754
  prescribes for \<open>+\<close>, \<open>-\<close>, \<open>*\<close>, \<open>/\<close> and \<open>sqrt\<close>: a result too small becomes zero
  (underflow), a result too large becomes an infinity (overflow). The sign of a zero is
  not modelled.
\<close>

datatype fnum = Fin real | PInf | NInf | NaN

text \<open>Rounding to the nearest integer, a tie going to the even one.\<close>

definition round_even :: "real \<Rightarrow> int" where
  "round_even q =
     (let f = \<lfloor>q\<rfloor>; d = q - of_int f
      in if d < 1 / 2 then f else if 1 / 2 < d then f + 1 else if even f then f else f + 1)"

text \<open>
  The exponent of the spacing of float64 values around \<open>x\<close>: 52 binary places below the
  leading bit, and never below that of the subnormal numbers, \<open>2\<^sup>-\<^sup>1\<^sup>0\<^sup>7\<^sup>4\<close>.
\<close>

definition ulp_exp :: "real \<Rightarrow> int" where
  "ulp_exp x = max (- 1074) (\<lfloor>log 2 \<bar>x\<bar>\<rfloor> - 52)"

text \<open>
  Round to nearest, ties to even; a rounded magnitude of \<open>2\<^sup>1\<^sup>0\<^sup>2\<^sup>4\<close> or more
  overflows to the infinity of the sign.
\<close>

definition rnd :: "real \<Rightarrow> fnum" where
  "rnd x =
     (if x = 0 then Fin 0
      else
        let u = 2 powr real_of_int (ulp_exp x);
            r = real_of_int (round_even (x / u)) * u
        in if 2 ^ 1024 \<le> \<bar>r\<bar> then (if 0 < x then PInf else NInf) else Fin r)"

fun isinf :: "fnum \<Rightarrow> bool" where
  "isinf PInf = True"
| "isinf NInf = True"
| "isinf _ = False"

fun fneg :: "fnum \<Rightarrow> fnum" where
  "fneg (Fin a) = Fin (- a)"
| "fneg PInf = NInf"
| "fneg NInf = PInf"
| "fneg NaN = NaN"

fun fadd :: "fnum \<Rightarrow> fnum \<Rightarrow> fnum" where
  "fadd (Fin a) (Fin b) = rnd (a + b)"
| "fadd NaN _ = NaN"
| "fadd _ NaN = NaN"
| "fadd PInf NInf = NaN"
| "fadd NInf PInf = NaN"
| "fadd PInf _ = PInf"
| "fadd _ PInf = PInf"
| "fadd NInf _ = NInf"
| "fadd _ NInf = NInf"

definition fsub :: "fnum \<Rightarrow> fnum \<Rightarrow> fnum" where
  "fsub a b = fadd a (fneg b)"

fun fmul :: "fnum \<Rightarrow> fnum \<Rightarrow> fnum" where
  "fmul (Fin a) (Fin b) = rnd (a * b)"
| "fmul NaN _ = NaN"
| "fmul _ NaN = NaN"
| "fmul (Fin a) PInf = (if a = 0 then NaN else if 0 < a then PInf else NInf)"
| "fmul (Fin a) NInf = (if a = 0 then NaN else if 0 < a then NInf else PInf)"
| "fmul PInf (Fin b) = (if b = 0 then NaN else if 0 < b then PInf else NInf)"
| "fmul NInf (Fin b) = (if b = 0 then NaN else if 0 < b then NInf else PInf)"
| "fmul PInf PInf = PInf"
| "fmul PInf NInf = NInf"
| "fmul NInf PInf = NInf"
| "fmul NInf NInf = PInf"

fun fdiv :: "fnum \<Rightarrow> fnum \<Rightarrow> fnum" where
  "fdiv (Fin a) (Fin b) =
     (if b \<noteq> 0 then rnd (a / b)
      else if a = 0 then NaN else if 0 < a then PInf else NInf)"
| "fdiv NaN _ = NaN"
| "fdiv _ NaN = NaN"
| "fdiv (Fin a) PInf = Fin 0"
| "fdiv (Fin a) NInf = Fin 0"
| "fdiv PInf (Fin b) = (if 0 \<le> b then PInf else NInf)"
| "fdiv NInf (Fin b) = (if 0 \<le> b then NInf else PInf)"
| "fdiv PInf _ = NaN"
| "fdiv NInf _ = NaN"

fun fsqrt :: "fnum \<Rightarrow> fnum" where
  "fsqrt (Fin a) = (if 0 \<le> a then rnd (sqrt a) else NaN)"
| "fsqrt PInf = PInf"
| "fsqrt NInf = NaN"
| "fsqrt NaN = NaN"

text \<open>The comparison \<open>a > b\<close>; every comparison with \<open>nan\<close> is false.\<close>

fun fgt :: "fnum \<Rightarrow> fnum \<Rightarrow> bool" where
  "fgt (Fin a) (Fin b) = (b < a)"
| "fgt NaN _ = False"
| "fgt _ NaN = False"
| "fgt PInf PInf = False"
| "fgt PInf _ = True"
| "fgt NInf _ = False"
| "fgt (Fin a) NInf = True"
| "fgt (Fin a) PInf = False"

definition fsum :: "fnum list \<Rightarrow> fnum" where
  "fsum xs = foldl fadd (Fin 0) xs"

text \<open>
  Modelled from the spec: \<open>Series.mean()\<close> and \<open>Series.std()\<close> are pandas functions, not
  code of the repository. The mean is the sum divided by the count; the standard deviation
  is the sample one (\<open>ddof=1\<close>: the squared deviations from the mean are summed and
  divided by \<open>N - 1\<close>), and it is \<open>nan\<close> when there are fewer than two values. The sum
  adds the values from left to right, rounding after each addition; the order in which
  pandas adds is its own, and nothing proved below depends on it.
\<close>

definition mean :: "fnum list \<Rightarrow> fnum" where
  "mean xs = fdiv (fsum xs) (Fin (real (length xs)))"

definition sq_dev :: "fnum \<Rightarrow> fnum \<Rightarrow> fnum" where
  "sq_dev m x = fmul (fsub x m) (fsub x m)"

definition std :: "fnum list \<Rightarrow> fnum" where
  "std xs =
     (if length xs \<le> 1 then NaN
      else fsqrt (fdiv (fsum (map (sq_dev (mean xs)) xs)) (Fin (real (length xs - 1)))))"

section \<open>Tables\<close>

text \<open>
  A cell read from a file is blank (pandas reads it as a missing value), holds text that
  the column's conversion rejects (\<open>Junk\<close>, with the text), or holds text that the
  conversion accepts (\<open>Good\<close>, with the value): \<open>pd.to_datetime\<close> for the Timestamp
  column, \<open>pd.to_numeric\<close> for the Price column.
\<close>

datatype 'a cell = Blank | Junk string | Good 'a

type_synonym datetime = nat

text \<open>One line of a file: the three fields in file order.\<close>

record csv_row =
  f_name :: "string option"
  f_timestamp :: "datetime cell"
  f_price :: "fnum cell"

text \<open>
  One row of a DataFrame. The columns that \<open>detect_outliers\<close> adds are optional:
  \<open>None\<close> stands for a column the frame does not have.
\<close>

record row =
  name :: "string option"
  timestamp :: "datetime cell"
  price :: "fnum cell"
  price_minus_mean :: "fnum option"
  pct_deviation :: "fnum option"
  mean_of_30 :: "fnum option"

datatype error =
  FileNotFound
| DirectoryNotFound
| NotADirectory
| ReadFailure
| InvalidTimestamps
| SampleFailure
| InsufficientData
| MissingValues
| NonNumericPrice
| DegenerateStatistics
| EmptyFile
| InvalidFileCount nat
| WriteFailure

section \<open>detect\_outliers\<close>

definition row_isnull :: "row \<Rightarrow> bool" where
  "row_isnull r \<longleftrightarrow>
     name r = None \<or> timestamp r = Blank \<or> price r = Blank \<or> price r = Good NaN
     \<or> price_minus_mean r = Some NaN \<or> pct_deviation r = Some NaN \<or> mean_of_30 r = Some NaN"

definition isnull_any :: "row list \<Rightarrow> bool" where
  "isnull_any data = list_ex row_isnull data"

fun is_numeric :: "fnum cell \<Rightarrow> bool" where
  "is_numeric (Good x) = True"
| "is_numeric Blank = True"
| "is_numeric (Junk s) = False"

fun field_value :: "fnum cell \<Rightarrow> fnum" where
  "field_value (Good x) = x"
| "field_value Blank = NaN"
| "field_value (Junk s) = NaN"

definition price_value :: "row \<Rightarrow> fnum" where
  "price_value r = field_value (price r)"

fun col_value :: "fnum option \<Rightarrow> fnum" where
  "col_value (Some x) = x"
| "col_value None = NaN"

text \<open>
  \<open>detect_outliers(data)\<close> assigns to columns of the frame it was given, so the model
  returns the frame as the call leaves it, next to the result. \<open>pd.to_numeric\<close> raises on a
  price that is not a number; on a frame it accepts, the converted column holds the values
  that \<open>price_value\<close> reads, so the assignment to \<open>data["Price"]\<close> leaves the cells as they
  are in this representation. The outliers are a boolean-mask selection, which is a copy:
  the two assignments made to it do not reach \<open>data\<close>.
\<close>

definition detect_outliers :: "row list \<Rightarrow> (error + row list) \<times> row list" where
  "detect_outliers data =
     (if isnull_any data then (Inl MissingValues, data)
      else if list_ex (\<lambda>r. \<not> is_numeric (price r)) data then (Inl NonNumericPrice, data)
      else
        let mean_v = mean (map price_value data);
            std_dev = std (map price_value data)
        in if isinf mean_v \<or> isinf std_dev then (Inl DegenerateStatistics, data)
           else
             let threshold = fmul (Fin 2) std_dev;
                 data1 = map (\<lambda>r. r\<lparr>price_minus_mean := Some (fsub (price_value r) mean_v)\<rparr>) data;
                 data2 = map (\<lambda>r. r\<lparr>pct_deviation :=
                            Some (fmul (fdiv (col_value (price_minus_mean r)) mean_v) (Fin 100))\<rparr>) data1;
                 outliers = filter (\<lambda>r. fgt (col_value (price_minus_mean r)) threshold) data2
             in if outliers \<noteq> []
                then (Inr (map (\<lambda>r. r\<lparr>mean_of_30 := Some mean_v,
                                 pct_deviation :=
                                   Some (fmul (fdiv (col_value (price_minus_mean r)) threshold) (Fin 100))\<rparr>)
                             outliers),
                      data2)
                else (Inr outliers, data2))"

text \<open>The columns a row has from its file; what scoring must not disturb.\<close>

definition core :: "row \<Rightarrow> string option \<times> datetime cell \<times> fnum cell" where
  "core r = (name r, timestamp r, price r)"

section \<open>The world outside the program\<close>

record report_row =
  r_name :: "string option"
  r_timestamp :: "datetime cell"
  actual_price :: fnum
  r_mean_of_30 :: fnum
  r_price_minus_mean :: fnum
  r_pct_deviation :: fnum

datatype event =
  OutliersFound string
| NoOutliersFound string
| ErrorProcessing string error

fun event_path :: "event \<Rightarrow> string" where
  "event_path (OutliersFound p) = p"
| "event_path (NoOutliersFound p) = p"
| "event_path (ErrorProcessing p e) = p"

text \<open>
  The file system (input files as their lines, directories as their listing, the paths
  that can be written), the report files written and the lines printed. Report files are
  kept apart from the input files: reading a report back is outside the model. The
  program never obtains a random number (see \<open>sample1\<close>), so the world has no random
  source.
\<close>

record world =
  files :: "string \<Rightarrow> csv_row list option"
  dirs :: "string \<Rightarrow> string list option"
  writable :: "string \<Rightarrow> bool"
  outputs :: "string \<Rightarrow> report_row list option"
  log :: "event list"

section \<open>read\_csv\_with\_headers\<close>

definition header_row :: csv_row where
  "header_row = \<lparr>f_name = Some ''Name'', f_timestamp = Junk ''Timestamp'', f_price = Junk ''Price''\<rparr>"

definition frame_of :: "csv_row list \<Rightarrow> row list" where
  "frame_of ls =
     map (\<lambda>l. \<lparr>name = f_name l, timestamp = f_timestamp l, price = f_price l,
                price_minus_mean = None, pct_deviation = None, mean_of_30 = None\<rparr>) ls"

text \<open>
  Modelled from the spec: \<open>pd.read_csv\<close> is a pandas function. A path that is not a file
  raises (FileNotFoundError when nothing is there); a file with no line at all raises a
  parse error; otherwise the first line names the columns, unless names are given, in
  which case every line is data.

  \<open>read_csv_with_headers\<close> reads one row to see the column names the first line gives,
  then reads the file again, with that line as header when it is the canonical one and
  with the canonical names given otherwise.
\<close>

definition read_csv_with_headers :: "world \<Rightarrow> string \<Rightarrow> error + row list" where
  "read_csv_with_headers w file_path =
     (case files w file_path of
        None \<Rightarrow> (if dirs w file_path = None then Inl FileNotFound else Inl ReadFailure)
      | Some ls \<Rightarrow>
          (case ls of
             [] \<Rightarrow> Inl ReadFailure
           | first # rest \<Rightarrow>
               if first = header_row then Inr (frame_of rest) else Inr (frame_of ls)))"

section \<open>random\_data\_points\<close>

text \<open>\<open>pd.to_datetime(..., errors='coerce')\<close>: what is not a date becomes missing.\<close>

fun to_datetime :: "datetime cell \<Rightarrow> datetime cell" where
  "to_datetime (Good t) = Good t"
| "to_datetime (Junk s) = Blank"
| "to_datetime Blank = Blank"

definition index_difference :: "nat list \<Rightarrow> nat list \<Rightarrow> nat list" where
  "index_difference xs ys = filter (\<lambda>i. i \<notin> set ys) xs"

text \<open>
  The indices a window may be drawn from: \<open>df.index.difference(df.index[-29:])\<close>, for a
  table of \<open>n\<close> rows. The slice \<open>[-29:]\<close> is the whole index when \<open>n \<le> 29\<close>.
\<close>

definition start_candidates :: "nat \<Rightarrow> nat list" where
  "start_candidates n = index_difference [0..<n] (drop (n - 29) [0..<n])"

text \<open>
  \<open>df.index.difference(last_29_index).sample(1).item()\<close>: the receiver of \<open>.sample\<close> is a
  pandas \<open>Index\<close>. \<open>sample\<close> is a method of \<open>Series\<close> and \<open>DataFrame\<close>; an \<open>Index\<close> has no
  such attribute, so the lookup raises AttributeError whatever the candidates are, and
  nothing is drawn. The error is \<open>SampleFailure\<close> here; \<open>random_data_points\<close> raises it
  again as "Unexpected error".
\<close>

definition sample1 :: "world \<Rightarrow> nat list \<Rightarrow> (error + nat) \<times> world" where
  "sample1 w cands = (Inl SampleFailure, w)"

text \<open>
  The statements after the draw are kept as the source has them; with \<open>sample1\<close> as it
  is, no call reaches them.
\<close>

definition random_data_points :: "world \<Rightarrow> string \<Rightarrow> nat \<Rightarrow> (error + row list) \<times> world" where
  "random_data_points w file_path num_points =
     (case read_csv_with_headers w file_path of
        Inl e \<Rightarrow> (Inl e, w)
      | Inr df0 \<Rightarrow>
          let df = map (\<lambda>r. r\<lparr>timestamp := to_datetime (timestamp r)\<rparr>) df0
          in if list_all (\<lambda>r. timestamp r = Blank) df then (Inl InvalidTimestamps, w)
             else
               (case sample1 w (start_candidates (length df)) of
                  (Inl e, w') \<Rightarrow> (Inl e, w')
                | (Inr chosen, w') \<Rightarrow>
                    let start_index = nat (max 0 (int chosen - int num_points + 1));
                        selected_data = take num_points (drop start_index df)
                    in if length selected_data < num_points then (Inl InsufficientData, w')
                       else (Inr selected_data, w')))"

section \<open>process\_file\<close>

definition out_path :: "string \<Rightarrow> string" where
  "out_path file_path = take (length file_path - 4) file_path @ ''_outliers.csv''"

definition to_csv :: "world \<Rightarrow> string \<Rightarrow> report_row list \<Rightarrow> error + world" where
  "to_csv w path rows =
     (if writable w path then Inr (w\<lparr>outputs := (outputs w)(path \<mapsto> rows)\<rparr>)
      else Inl WriteFailure)"

text \<open>
  The six columns written for one outlier, from the mean of the sampled window:
  \<open>Actual Price\<close> is the price, \<open>Price-Mean\<close> and \<open>% Deviation\<close> are computed again.
\<close>

definition report_row_of :: "fnum \<Rightarrow> row \<Rightarrow> report_row" where
  "report_row_of m r =
     (let actual = price_value r;
          pm = fsub actual m
      in \<lparr>r_name = name r, r_timestamp = timestamp r, actual_price = actual,
          r_mean_of_30 = m, r_price_minus_mean = pm,
          r_pct_deviation = fmul (fdiv pm m) (Fin 100)\<rparr>)"

text \<open>The body of the \<open>try\<close> block.\<close>

definition process_file_body :: "world \<Rightarrow> string \<Rightarrow> (error + unit) \<times> world" where
  "process_file_body w file_path =
     (case read_csv_with_headers w file_path of
        Inl e \<Rightarrow> (Inl e, w)
      | Inr df \<Rightarrow>
          if df = [] then (Inl EmptyFile, w)
          else
            (case random_data_points w file_path 30 of
               (Inl e, w1) \<Rightarrow> (Inl e, w1)
             | (Inr sampled_data, w1) \<Rightarrow>
                 (case detect_outliers sampled_data of
                    (Inl e, sampled') \<Rightarrow> (Inl e, w1)
                  | (Inr outliers, sampled') \<Rightarrow>
                      if outliers \<noteq> [] then
                        (case to_csv w1 (out_path file_path)
                                (map (report_row_of (mean (map price_value sampled'))) outliers) of
                           Inl e \<Rightarrow> (Inl e, w1)
                         | Inr w2 \<Rightarrow> (Inr (), w2\<lparr>log := log w2 @ [OutliersFound file_path]\<rparr>))
                      else (Inr (), w1\<lparr>log := log w1 @ [NoOutliersFound file_path]\<rparr>))))"

text \<open>\<open>except Exception as e: print(...)\<close>: the error is printed and the call returns.\<close>

definition process_file :: "world \<Rightarrow> string \<Rightarrow> (error + unit) \<times> world" where
  "process_file w file_path =
     (case process_file_body w file_path of
        (Inl e, w') \<Rightarrow> (Inr (), w'\<lparr>log := log w' @ [ErrorProcessing file_path e]\<rparr>)
      | (Inr u, w') \<Rightarrow> (Inr (), w'))"

section \<open>process\_files\_in\_directory\<close>

definition endswith :: "string \<Rightarrow> string \<Rightarrow> bool" where
  "endswith s suffix \<longleftrightarrow> drop (length s - length suffix) s = suffix"

definition path_join :: "string \<Rightarrow> string \<Rightarrow> string" where
  "path_join directory file =
     (if file \<noteq> [] \<and> hd file = CHR ''/'' then file
      else if directory = [] \<or> last directory = CHR ''/'' then directory @ file
      else directory @ ''/'' @ file)"

definition listdir :: "world \<Rightarrow> string \<Rightarrow> error + string list" where
  "listdir w directory =
     (case dirs w directory of
        Some names \<Rightarrow> Inr names
      | None \<Rightarrow> (if files w directory = None then Inl FileNotFound else Inl NotADirectory))"

fun process_each :: "world \<Rightarrow> string \<Rightarrow> string list \<Rightarrow> (error + unit) \<times> world" where
  "process_each w directory [] = (Inr (), w)"
| "process_each w directory (file # rest) =
     (if endswith file ''.csv'' then
        (case process_file w (path_join directory file) of
           (Inl e, w') \<Rightarrow> (Inl e, w')
         | (Inr u, w') \<Rightarrow> process_each w' directory rest)
      else process_each w directory rest)"

text \<open>
  The handlers of \<open>process_files_in_directory\<close>: a FileNotFoundError is raised again as
  "Directory not found"; any other exception is raised again with its message kept.
\<close>

fun directory_handler :: "error \<Rightarrow> error" where
  "directory_handler FileNotFound = DirectoryNotFound"
| "directory_handler e = e"

definition process_files_in_directory :: "world \<Rightarrow> string \<Rightarrow> (error + unit) \<times> world" where
  "process_files_in_directory w directory =
     (case listdir w directory of
        Inl e \<Rightarrow> (Inl (directory_handler e), w)
      | Inr names \<Rightarrow>
          let file_count = length (filter (\<lambda>file. endswith file ''.csv'') names)
          in if file_count \<noteq> 1 \<and> file_count \<noteq> 2
             then (Inl (directory_handler (InvalidFileCount file_count)), w)
             else
               (case listdir w directory of
                  Inl e \<Rightarrow> (Inl (directory_handler e), w)
                | Inr names2 \<Rightarrow>
                    (case process_each w directory names2 of
                       (Inl e, w') \<Rightarrow> (Inl (directory_handler e), w')
                     | (Inr u, w') \<Rightarrow> (Inr (), w'))))"

section \<open>Example data\<close>

text \<open>
  Windows and files on which the properties below are evaluated: a window of nine rows
  with one price far above the others, a window of one row, a window with an infinite
  price; a file of 30 rows under a header (29 prices of 100 and one of 1000), a file of 40
  rows, a file of ten rows, an empty file, and two directories.
\<close>

definition example_row :: "string \<Rightarrow> nat \<Rightarrow> fnum \<Rightarrow> row" where
  "example_row n t p =
     \<lparr>name = Some n, timestamp = Good t, price = Good p,
      price_minus_mean = None, pct_deviation = None, mean_of_30 = None\<rparr>"

definition window9 :: "row list" where
  "window9 = replicate 8 (example_row ''A'' 1 (Fin 0)) @ [example_row ''B'' 2 (Fin 9)]"

definition window1 :: "row list" where
  "window1 = [example_row ''A'' 1 (Fin 5)]"

definition window_inf :: "row list" where
  "window_inf = [example_row ''A'' 1 (Fin 5), example_row ''B'' 2 PInf]"

definition data_row :: "string \<Rightarrow> nat \<Rightarrow> fnum \<Rightarrow> csv_row" where
  "data_row n t p = \<lparr>f_name = Some n, f_timestamp = Good t, f_price = Good p\<rparr>"

definition world_of :: "(string \<Rightarrow> csv_row list option) \<Rightarrow> world" where
  "world_of fs = \<lparr>files = fs, dirs = (\<lambda>d. None), writable = (\<lambda>p. True),
                  outputs = (\<lambda>p. None), log = []\<rparr>"

definition spike_lines :: "csv_row list" where
  "spike_lines = replicate 29 (data_row ''A'' 1 (Fin 100)) @ [data_row ''B'' 2 (Fin 1000)]"

definition long_lines :: "csv_row list" where
  "long_lines = map (\<lambda>i. data_row ''A'' i (Fin 100)) [0..<40]"

definition short_lines :: "csv_row list" where
  "short_lines = data_row ''A'' 1 (Fin 100) # replicate 9 (data_row ''A'' 1 (Fin 100))"

definition example_world :: world where
  "example_world =
     \<lparr>files = [''data/a.csv'' \<mapsto> header_row # spike_lines, ''data/b.csv'' \<mapsto> [],
               ''tmp/short.csv'' \<mapsto> short_lines, ''tmp/long.csv'' \<mapsto> long_lines],
      dirs = [''data'' \<mapsto> [''b.csv'', ''notes.txt'', ''a.csv''],
              ''empty'' \<mapsto> [''notes.txt'']],
      writable = (\<lambda>p. True), outputs = (\<lambda>p. None), log = []\<rparr>"


definition huge :: real where
  "huge = 2 ^ 1023"


definition window_huge :: "row list" where
  "window_huge = [example_row ''A'' 1 (Fin huge), example_row ''B'' 2 (Fin huge)]"

section \<open>Rounding\<close>

lemma round_even_of_int [simp]: "round_even (of_int n) = n"
  by (simp add: round_even_def)



lemma rnd_not_NaN [simp]: "rnd x \<noteq> NaN"
  by (simp add: rnd_def Let_def)


lemma rnd_PInf: "rnd x = PInf \<Longrightarrow> 0 < x"
  by (auto simp: rnd_def Let_def split: if_splits)

lemma rnd_NInf: "rnd x = NInf \<Longrightarrow> x < 0"
  by (auto simp: rnd_def Let_def split: if_splits)


lemma rnd_exact:
  assumes "x = real_of_int m * 2 powr real_of_int e"
    and "\<bar>m\<bar> < 2 ^ 53" and "- 1074 \<le> e" and "e \<le> 971"
  shows "rnd x = Fin x"
proof (cases "x = 0")
  case True then show ?thesis by (simp add: rnd_def)
next
  case False
  then have pos: "0 < \<bar>x\<bar>" by simp
  have absx: "\<bar>x\<bar> = real_of_int \<bar>m\<bar> * 2 powr real_of_int e"
    using assms(1) by (simp add: abs_mult)
  have m53: "real_of_int \<bar>m\<bar> < 2 powr 53"
  proof -
    from assms(2) have "real_of_int \<bar>m\<bar> < real_of_int (2 ^ 53)" by (simp only: of_int_less_iff)
    then show ?thesis by simp
  qed
  have lt: "\<bar>x\<bar> < 2 powr (53 + real_of_int e)"
  proof -
    have "\<bar>x\<bar> < 2 powr 53 * 2 powr real_of_int e"
      unfolding absx using m53 by (simp add: mult_strict_right_mono)
    then show ?thesis by (simp add: powr_add)
  qed
  then have "Transcendental.log 2 \<bar>x\<bar> < 53 + real_of_int e"
    using pos by (simp add: log_less_iff)
  then have "\<lfloor>Transcendental.log 2 \<bar>x\<bar>\<rfloor> \<le> 52 + e" by linarith
  with assms(3) have ue: "ulp_exp x \<le> e" by (simp add: ulp_exp_def)
  define u where "u = 2 powr real_of_int (ulp_exp x)"
  define k where "k = nat (e - ulp_exp x)"
  have ek: "real_of_int e = real_of_int (ulp_exp x) + real k"
    using ue by (simp add: k_def)
  have "2 powr real_of_int e = 2 powr (real_of_int (ulp_exp x) + real k)"
    by (simp only: ek)
  also have "\<dots> = u * 2 ^ k"
    by (simp add: powr_add powr_realpow u_def)
  finally have p: "2 powr real_of_int e = u * 2 ^ k" .
  have upos: "0 < u" by (simp add: u_def)
  have xu: "x = real_of_int (m * 2 ^ k) * u"
    using assms(1) p by simp
  then have q: "x / u = real_of_int (m * 2 ^ k)"
    using upos by simp
  have "round_even (x / u) = m * 2 ^ k"
    by (simp only: q round_even_of_int)
  then have r: "real_of_int (round_even (x / u)) * u = x"
    using xu by simp
  have "\<bar>x\<bar> < 2 powr 1024"
  proof -
    have "53 + real_of_int e \<le> 1024" using assms(4) by simp
    then have "(2::real) powr (53 + real_of_int e) \<le> 2 powr 1024" by (rule powr_mono) simp
    with lt show ?thesis by linarith
  qed
  then have "\<bar>x\<bar> < 2 ^ 1024" by simp
  with False r show ?thesis by (simp add: rnd_def Let_def u_def)
qed

lemma rnd_int: "\<bar>m\<bar> < 2 ^ 53 \<Longrightarrow> rnd (real_of_int m) = Fin (real_of_int m)"
  using rnd_exact[of "real_of_int m" m 0] by simp

lemma rnd_numeral [simp]:
  "(numeral n :: int) < 2 ^ 53 \<Longrightarrow> rnd (numeral n) = Fin (numeral n)"
  "(numeral n :: int) < 2 ^ 53 \<Longrightarrow> rnd (- numeral n) = Fin (- numeral n)"
  "rnd 0 = Fin 0" "rnd 1 = Fin 1" "rnd (- 1) = Fin (- 1)"
  using rnd_int[of "numeral n"] rnd_int[of "- numeral n"] rnd_int[of 0] rnd_int[of 1] rnd_int[of "- 1"]
  by simp_all






section \<open>Properties of detect\_outliers\<close>

lemma fsqrt_not_NInf: "fsqrt v \<noteq> NInf"
proof (cases v)
  case (Fin a)
  show ?thesis
  proof
    assume "fsqrt v = NInf"
    with Fin have "0 \<le> a" and "rnd (sqrt a) = NInf" by (auto split: if_splits)
    from rnd_NInf[OF this(2)] this(1) show False by simp
  qed
qed simp_all




lemma fgt_NaN_right [simp]: "fgt x NaN = False"
  by (cases x) simp_all

lemma fgt_PInf_right [simp]: "fgt x PInf = False"
  by (cases x) simp_all

lemma price_value_upd [simp]:
  "price_value (r\<lparr>price_minus_mean := a\<rparr>) = price_value r"
  "price_value (r\<lparr>pct_deviation := b\<rparr>) = price_value r"
  "price_value (r\<lparr>mean_of_30 := c\<rparr>) = price_value r"
  by (simp_all add: price_value_def)

lemma detect_outliers_success:
  assumes "\<not> isnull_any data" and "\<not> list_ex (\<lambda>r. \<not> is_numeric (price r)) data"
    and "\<not> isinf m" and "\<not> isinf (std (map price_value data))"
    and "m = mean (map price_value data)" and "t = fmul (Fin 2) (std (map price_value data))"
  shows "detect_outliers data =
          (Inr (map (\<lambda>r. r\<lparr>price_minus_mean := Some (fsub (price_value r) m),
                             pct_deviation := Some (fmul (fdiv (fsub (price_value r) m) t) (Fin 100)),
                             mean_of_30 := Some m\<rparr>)
                  (filter (\<lambda>r. fgt (fsub (price_value r) m) t) data)),
           map (\<lambda>r. r\<lparr>price_minus_mean := Some (fsub (price_value r) m),
                       pct_deviation := Some (fmul (fdiv (fsub (price_value r) m) m) (Fin 100))\<rparr>) data)"
  using assms
  by (simp add: detect_outliers_def Let_def filter_map comp_def)


lemma sq_dev_inf_mean: "isinf m \<Longrightarrow> sq_dev m x = PInf \<or> sq_dev m x = NaN"
  by (cases m; cases x; simp add: sq_dev_def fsub_def)

lemma foldl_fadd_PInf_NaN:
  "a = PInf \<or> a = NaN \<Longrightarrow> \<forall>y\<in>set ys. y = PInf \<or> y = NaN \<Longrightarrow>
   foldl fadd a ys = PInf \<or> foldl fadd a ys = NaN"
proof (induction ys arbitrary: a)
  case Nil
  then show ?case by simp
next
  case (Cons y ys)
  from Cons.prems have "fadd a y = PInf \<or> fadd a y = NaN" by auto
  from Cons.IH[OF this] Cons.prems(2) show ?case by simp
qed

lemma fsum_PInf_NaN:
  assumes "ys \<noteq> []" and "\<forall>y\<in>set ys. y = PInf \<or> y = NaN"
  shows "fsum ys = PInf \<or> fsum ys = NaN"
proof (cases ys)
  case Nil
  with assms(1) show ?thesis by simp
next
  case (Cons y zs)
  with assms(2) have "fadd (Fin 0) y = PInf \<or> fadd (Fin 0) y = NaN" by auto
  from foldl_fadd_PInf_NaN[OF this, of zs] assms(2) Cons show ?thesis
    by (simp add: fsum_def)
qed

lemma degenerate_threshold:
  assumes "isinf (mean xs) \<or> isinf (std xs)"
  shows "fmul (Fin 2) (std xs) = PInf \<or> fmul (Fin 2) (std xs) = NaN"
proof (cases "length xs \<le> 1")
  case True
  then show ?thesis by (simp add: std_def)
next
  case False
  let ?S = "fsum (map (sq_dev (mean xs)) xs)"
  let ?k = "real (length xs - 1)"
  from False have k: "0 < ?k" by simp
  from False have sd: "std xs = fsqrt (fdiv ?S (Fin ?k))" by (simp add: std_def)
  show ?thesis
  proof (cases "isinf (mean xs)")
    case True
    from False have "map (sq_dev (mean xs)) xs \<noteq> []" by auto
    moreover have "\<forall>y\<in>set (map (sq_dev (mean xs)) xs). y = PInf \<or> y = NaN"
      using sq_dev_inf_mean[OF True] by auto
    ultimately have "?S = PInf \<or> ?S = NaN" by (rule fsum_PInf_NaN)
    with k sd show ?thesis by auto
  next
    case False
    with assms have "isinf (std xs)" by simp
    moreover have "std xs \<noteq> NInf" using fsqrt_not_NInf sd by simp
    ultimately have "std xs = PInf" by (cases "std xs") simp_all
    then show ?thesis by simp
  qed
qed

text \<open>
  C1. On a window with no missing value and numeric prices, with the mean and the sample
  standard deviation (dividing by \<open>N - 1\<close>) of its prices, the rows the scorer returns are
  exactly the rows with \<open>Price - mean > 2 * std_dev\<close>, in window order; when the scorer
  raises instead (infinite statistics), no row satisfies the test.
\<close>

theorem detect_outliers_flags_iff:
  assumes "\<not> isnull_any data" and "list_all (\<lambda>r. is_numeric (price r)) data"
  shows "case fst (detect_outliers data) of
           Inr out \<Rightarrow>
             map core out =
             map core (filter (\<lambda>r. fgt (fsub (price_value r) (mean (map price_value data)))
                                     (fmul (Fin 2) (std (map price_value data)))) data)
         | Inl e \<Rightarrow>
             e = DegenerateStatistics \<and>
             filter (\<lambda>r. fgt (fsub (price_value r) (mean (map price_value data)))
                           (fmul (Fin 2) (std (map price_value data)))) data = []"
proof -
  let ?ps = "map price_value data"
  from assms(2) have num: "\<not> list_ex (\<lambda>r. \<not> is_numeric (price r)) data"
    by (simp add: list_all_iff list_ex_iff)
  show ?thesis
  proof (cases "isinf (mean ?ps) \<or> isinf (std ?ps)")
    case True
    from degenerate_threshold[OF True] have "\<And>x. \<not> fgt x (fmul (Fin 2) (std ?ps))" by auto
    then have "filter (\<lambda>r. fgt (fsub (price_value r) (mean ?ps)) (fmul (Fin 2) (std ?ps))) data = []"
      by simp
    moreover from True assms(1) num have "fst (detect_outliers data) = Inl DegenerateStatistics"
      by (simp add: detect_outliers_def Let_def)
    ultimately show ?thesis by simp
  next
    case False
    with detect_outliers_success[OF assms(1) num, of "mean ?ps" "fmul (Fin 2) (std ?ps)"]
    show ?thesis by (simp add: core_def comp_def)
  qed
qed

lemma no_outlier_when_nan:
  assumes "\<not> isnull_any data" and "\<not> list_ex (\<lambda>r. \<not> is_numeric (price r)) data"
    and "\<not> isinf (mean (map price_value data))" and "\<not> isinf (std (map price_value data))"
    and "mean (map price_value data) = NaN \<or> std (map price_value data) = NaN"
  shows "fst (detect_outliers data) = Inr []"
proof -
  let ?m = "mean (map price_value data)"
  let ?t = "fmul (Fin 2) (std (map price_value data))"
  have "\<not> fgt (fsub x ?m) ?t" for x
  proof (cases "std (map price_value data) = NaN")
    case True
    then show ?thesis by simp
  next
    case False
    with assms(5) have "?m = NaN" by simp
    then have "fsub x ?m = NaN" by (cases x) (simp_all add: fsub_def)
    then show ?thesis by simp
  qed
  then have "filter (\<lambda>r. fgt (fsub (price_value r) ?m) ?t) data = []" by simp
  with detect_outliers_success[OF assms(1-4) refl refl] show ?thesis by simp
qed

text \<open>
  C7, as amended. On a window that passes the missing-value and numeric checks, the scorer
  fails with DegenerateStatistics exactly when the mean or the standard deviation is
  infinite. When neither is infinite and one of them is undefined (\<open>nan\<close>), as the
  standard deviation of a window of one row is, the scorer does not fail: it returns an
  empty set of outliers.
\<close>

theorem degenerate_iff_infinite:
  assumes "\<not> isnull_any data" and "list_all (\<lambda>r. is_numeric (price r)) data"
  shows "(fst (detect_outliers data) = Inl DegenerateStatistics \<longleftrightarrow>
            isinf (mean (map price_value data)) \<or> isinf (std (map price_value data))) \<and>
         (\<not> isinf (mean (map price_value data)) \<longrightarrow>
          \<not> isinf (std (map price_value data)) \<longrightarrow>
          mean (map price_value data) = NaN \<or> std (map price_value data) = NaN \<longrightarrow>
            fst (detect_outliers data) = Inr [])"
proof -
  from assms(2) have num: "\<not> list_ex (\<lambda>r. \<not> is_numeric (price r)) data"
    by (simp add: list_all_iff list_ex_iff)
  have iff: "fst (detect_outliers data) = Inl DegenerateStatistics \<longleftrightarrow>
            isinf (mean (map price_value data)) \<or> isinf (std (map price_value data))"
    using assms(1) num by (simp add: detect_outliers_def Let_def)
  with no_outlier_when_nan[OF assms(1) num] show ?thesis by blast
qed


text \<open>
  C9, as amended. Scoring keeps the rows of the window, their order, and every row's
  Name, Timestamp and Price; it does not give the window the report's mean column. When
  the scorer raises the window is as it was; when it returns, every row of the window has
  gained \<open>Price-Mean\<close> and \<open>% Deviation\<close> (relative to the mean).
\<close>

theorem detect_outliers_window_effect:
  "map core (snd (detect_outliers data)) = map core data \<and>
   map mean_of_30 (snd (detect_outliers data)) = map mean_of_30 data \<and>
   (case fst (detect_outliers data) of
      Inl e \<Rightarrow> snd (detect_outliers data) = data
    | Inr out \<Rightarrow>
        snd (detect_outliers data) =
        map (\<lambda>r. r\<lparr>price_minus_mean := Some (fsub (price_value r) (mean (map price_value data))),
                    pct_deviation := Some (fmul (fdiv (fsub (price_value r) (mean (map price_value data)))
                                                     (mean (map price_value data))) (Fin 100))\<rparr>) data)"
  by (simp add: detect_outliers_def Let_def core_def comp_def)

section \<open>The scorer on the examples\<close>

lemma sqrt_9: "sqrt 9 = 3"
  by (rule real_sqrt_unique) simp_all

lemma example_row_simps [simp]:
  "price_value (example_row n t p) = p"
  "row_isnull (example_row n t p) \<longleftrightarrow> p = NaN"
  "is_numeric (price (example_row n t p))"
  by (simp_all add: example_row_def price_value_def row_isnull_def)


lemma replicate_8: "replicate 8 x = [x, x, x, x, x, x, x, x]"
  by (simp add: numeral_eq_Suc)

lemmas eval_simps =
  fsum_def mean_def std_def sq_dev_def fsub_def
  isnull_any_def list_ex_iff list_all_iff

lemma window9_mean: "mean (map price_value window9) = Fin 1"
  by (simp add: window9_def replicate_8 eval_simps)

lemma window9_std: "std (map price_value window9) = Fin 3"
  by (simp add: window9_def replicate_8 eval_simps sqrt_9)

lemma window9_ok: "\<not> isnull_any window9" "list_all (\<lambda>r. is_numeric (price r)) window9"
  by (simp_all add: window9_def replicate_8 eval_simps)

lemma window9_filter:
  "filter (\<lambda>r. fgt (fsub (price_value r) (Fin 1)) (Fin 6)) window9 = [example_row ''B'' 2 (Fin 9)]"
  by (simp add: window9_def replicate_8 fsub_def)

lemma window9_result:
  "fst (detect_outliers window9) =
     Inr [(example_row ''B'' 2 (Fin 9))
           \<lparr>price_minus_mean := Some (Fin 8),
            pct_deviation := Some (fmul (rnd (8 / 6)) (Fin 100)),
            mean_of_30 := Some (Fin 1)\<rparr>]"
  using window9_ok
  by (subst detect_outliers_success[OF _ _ _ _ refl refl])
     (simp_all add: window9_mean window9_std list_all_iff list_ex_iff window9_filter, simp add: fsub_def)

theorem detect_outliers_flags_iff_witness:
  "\<not> isnull_any window9 \<and> list_all (\<lambda>r. is_numeric (price r)) window9 \<and>
   (case fst (detect_outliers window9) of
      Inr out \<Rightarrow> map core out = [core (example_row ''B'' 2 (Fin 9))]
    | Inl e \<Rightarrow> False)"
  using detect_outliers_flags_iff[OF window9_ok] window9_ok
  by (simp add: window9_mean window9_std window9_filter split: sum.splits)

text \<open>
  A window of one row has an undefined standard deviation, and the scorer returns (no
  outlier) instead of failing.
\<close>

theorem degenerate_one_row_counterexample:
  "std (map price_value window1) = NaN \<and> fst (detect_outliers window1) = Inr []"
  by (simp add: window1_def detect_outliers_def eval_simps)

text \<open>Scoring a one-row window changes the window: it gains the two columns.\<close>

theorem window_changed_counterexample: "snd (detect_outliers window1) \<noteq> window1"
  by (simp add: window1_def detect_outliers_def eval_simps) (simp add: example_row_def)

theorem detect_outliers_window_effect_witness:
  "map core (snd (detect_outliers window9)) = map core window9 \<and>
   map price_minus_mean (snd (detect_outliers window9))
     = replicate 8 (Some (Fin (- 1))) @ [Some (Fin 8)]"
  using detect_outliers_window_effect[of window9] window9_result
  by (simp add: window9_mean) (simp add: window9_def replicate_8 fsub_def core_def)


















text \<open>Two prices of \<open>2\<^sup>1\<^sup>0\<^sup>2\<^sup>3\<close>: their sum overflows, and the mean is infinite.\<close>

lemma rnd_huge: "rnd huge = Fin huge"
proof -
  have "(2::real) powr real_of_int 971 = 2 ^ 971"
    by (simp only: of_int_numeral powr_numeral zero_le_numeral)
  then have "huge = real_of_int (2 ^ 52) * 2 powr real_of_int 971"
    by (simp add: huge_def)
  from rnd_exact[OF this] show ?thesis by simp
qed

lemma rnd_overflow: "rnd (huge + huge) = PInf"
proof -
  have x: "huge + huge = 2 ^ 1024" by (simp add: huge_def)
  have "Transcendental.log 2 (2 ^ 1024) = real 1024"
    by (rule log_pow_cancel) simp_all
  then have "\<lfloor>Transcendental.log 2 \<bar>2 ^ 1024 :: real\<bar>\<rfloor> = 1024" by simp
  then have ue: "ulp_exp (2 ^ 1024) = 972" by (simp only: ulp_exp_def)
  have p: "(2::real) powr real_of_int 972 = 2 ^ 972"
    by (simp only: of_int_numeral powr_numeral zero_le_numeral)
  have q: "(2 ^ 1024 :: real) / 2 ^ 972 = real_of_int (2 ^ 52)" by simp
  have r: "real_of_int (round_even (2 ^ 1024 / 2 ^ 972)) * 2 ^ 972 = (2 ^ 1024 :: real)"
    by (simp only: q round_even_of_int) simp
  have nz: "(2 ^ 1024 :: real) \<noteq> 0" by simp
  have main: "rnd (2 ^ 1024) = PInf"
    unfolding rnd_def Let_def ue p r using nz by simp
  show ?thesis unfolding x by (rule main)
qed

lemma rnd_overflow_twice: "rnd (2 * huge) = PInf"
  using rnd_overflow by (simp only: mult_2)

lemma window_huge_mean: "mean (map price_value window_huge) = PInf"
  by (simp add: window_huge_def mean_def fsum_def rnd_huge rnd_overflow_twice)

theorem degenerate_iff_infinite_witness:
  "\<not> isnull_any window_inf \<and> list_all (\<lambda>r. is_numeric (price r)) window_inf \<and>
   isinf (mean (map price_value window_inf)) \<and>
   fst (detect_outliers window_inf) = Inl DegenerateStatistics \<and>
   \<not> isnull_any window1 \<and> list_all (\<lambda>r. is_numeric (price r)) window1 \<and>
   \<not> isinf (mean (map price_value window1)) \<and> \<not> isinf (std (map price_value window1)) \<and>
   std (map price_value window1) = NaN \<and>
   fst (detect_outliers window1) = Inr []"
proof -
  have ok: "\<not> isnull_any window_inf" "list_all (\<lambda>r. is_numeric (price r)) window_inf"
    by (simp_all add: window_inf_def eval_simps)
  have inf: "isinf (mean (map price_value window_inf))"
    by (simp add: window_inf_def eval_simps)
  have ok1: "\<not> isnull_any window1" "list_all (\<lambda>r. is_numeric (price r)) window1"
    by (simp_all add: window1_def eval_simps)
  have fin1: "\<not> isinf (mean (map price_value window1))" "std (map price_value window1) = NaN"
    by (simp_all add: window1_def eval_simps)
  from degenerate_iff_infinite[OF ok] degenerate_iff_infinite[OF ok1] inf ok ok1 fin1
  show ?thesis by simp
qed

lemma overflow_is_degenerate:
  "fst (detect_outliers window_huge) = Inl DegenerateStatistics"
proof -
  have "\<not> isnull_any window_huge" "\<not> list_ex (\<lambda>r. \<not> is_numeric (price r)) window_huge"
    by (simp_all add: window_huge_def isnull_any_def)
  then show ?thesis
    by (simp add: detect_outliers_def Let_def window_huge_mean)
qed

section \<open>Loading and sampling\<close>

text \<open>
  C8, as amended. For data rows of which there is at least one and the first is not
  textually the canonical header, the loader's output for the file with the canonical
  header row before the data rows equals its output for the file with the data rows
  alone: both are the data rows.
\<close>

theorem loader_header_invariance:
  assumes "ls \<noteq> []" and "hd ls \<noteq> header_row"
    and "files w1 p1 = Some (header_row # ls)" and "files w2 p2 = Some ls"
  shows "read_csv_with_headers w1 p1 = read_csv_with_headers w2 p2
         \<and> read_csv_with_headers w2 p2 = Inr (frame_of ls)"
  using assms by (cases ls) (simp_all add: read_csv_with_headers_def)

text \<open>
  A data row that is textually \<open>Name,Timestamp,Price\<close>: after a header row it is kept as
  data, without one it is taken for the header and consumed.
\<close>

theorem loader_header_counterexample:
  "read_csv_with_headers (world_of [''a.csv'' \<mapsto> header_row # [header_row]]) ''a.csv''
   \<noteq> read_csv_with_headers (world_of [''a.csv'' \<mapsto> [header_row]]) ''a.csv''"
  by (simp add: read_csv_with_headers_def world_of_def frame_of_def)

theorem loader_header_invariance_witness:
  "[data_row ''A'' 1 (Fin 5)] \<noteq> [] \<and> hd [data_row ''A'' 1 (Fin 5)] \<noteq> header_row \<and>
   read_csv_with_headers (world_of [''a.csv'' \<mapsto> header_row # [data_row ''A'' 1 (Fin 5)]]) ''a.csv''
   = read_csv_with_headers (world_of [''b.csv'' \<mapsto> [data_row ''A'' 1 (Fin 5)]]) ''b.csv''"
  using loader_header_invariance[of "[data_row ''A'' 1 (Fin 5)]"
     "world_of [''a.csv'' \<mapsto> header_row # [data_row ''A'' 1 (Fin 5)]]" "''a.csv''"
     "world_of [''b.csv'' \<mapsto> [data_row ''A'' 1 (Fin 5)]]" "''b.csv''"]
  by (simp add: world_of_def data_row_def header_row_def)

lemma start_candidates_eq: "start_candidates n = [0..<n - 29]"
proof -
  have "set (drop (n - 29) [0..<n]) = {n - 29..<n}" by simp
  then have "start_candidates n = filter (\<lambda>i. i < n - 29) [0..<n]"
    unfolding start_candidates_def index_difference_def
    by (intro filter_cong) auto
  also have "\<dots> = [0..<n - 29]"
  proof -
    have "[0..<n] = [0..<n - 29] @ [n - 29..<n]"
      using upt_add_eq_append[of 0 "n - 29" "n - (n - 29)"] by simp
    then have "filter (\<lambda>i. i < n - 29) [0..<n]
             = filter (\<lambda>i. i < n - 29) [0..<n - 29] @ filter (\<lambda>i. i < n - 29) [n - 29..<n]"
      by (metis filter_append)
    also have "filter (\<lambda>i. i < n - 29) [0..<n - 29] = [0..<n - 29]" by (simp add: filter_id_conv)
    also have "filter (\<lambda>i. i < n - 29) [n - 29..<n] = []" by (simp add: filter_empty_conv)
    finally show ?thesis by simp
  qed
  finally show ?thesis .
qed


lemma random_data_points_draw_fails:
  assumes "read_csv_with_headers w p = Inr df0"
    and "\<not> list_all (\<lambda>r. timestamp r = Blank)
             (map (\<lambda>r. r\<lparr>timestamp := to_datetime (timestamp r)\<rparr>) df0)"
  shows "random_data_points w p N = (Inl SampleFailure, w)"
  using assms by (simp add: random_data_points_def sample1_def)

lemma random_data_points_never_returns:
  "fst (random_data_points w p N) \<noteq> Inr window"
  by (simp add: random_data_points_def sample1_def Let_def split: sum.splits)

lemma random_data_points_world: "snd (random_data_points w p N) = w"
  by (simp add: random_data_points_def sample1_def Let_def split: sum.splits)


lemma short_read:
  "read_csv_with_headers example_world ''tmp/short.csv'' = Inr (frame_of short_lines)"
  by (simp add: read_csv_with_headers_def example_world_def short_lines_def data_row_def header_row_def)

lemma short_not_all_blank:
  "\<not> list_all (\<lambda>r. timestamp r = Blank)
       (map (\<lambda>r. r\<lparr>timestamp := to_datetime (timestamp r)\<rparr>) (frame_of short_lines))"
  by (simp add: short_lines_def frame_of_def data_row_def)


text \<open>
  C4. A file of ten rows with valid timestamps, sampled with the default size 30: the call
  fails at the draw and never reaches the test that raises "Insufficient data points in
  the file".
\<close>

theorem short_table_sampling:
  "length short_lines = 10 \<and>
   random_data_points example_world ''tmp/short.csv'' 30 = (Inl SampleFailure, example_world)"
  using random_data_points_draw_fails[OF short_read short_not_all_blank, of 30]
  by (simp add: short_lines_def)

lemma read_headerless:
  assumes "files w p = Some ls" and "ls \<noteq> []" and "hd ls \<noteq> header_row"
  shows "read_csv_with_headers w p = Inr (frame_of ls)"
  using assms by (cases ls) (simp_all add: read_csv_with_headers_def)

lemma read_long:
  "read_csv_with_headers example_world ''tmp/long.csv'' = Inr (frame_of long_lines)"
proof -
  have f: "files example_world ''tmp/long.csv'' = Some long_lines"
    by (simp add: example_world_def)
  have ne: "long_lines \<noteq> []" by (simp add: long_lines_def)
  have "hd long_lines = data_row ''A'' 0 (Fin 100)"
    by (simp add: long_lines_def hd_map)
  then have h: "hd long_lines \<noteq> header_row"
    by (simp add: data_row_def header_row_def)
  from read_headerless[OF f ne h] show ?thesis .
qed

lemma long_not_all_blank:
  "\<not> list_all (\<lambda>r. timestamp r = Blank)
       (map (\<lambda>r. r\<lparr>timestamp := to_datetime (timestamp r)\<rparr>) (frame_of long_lines))"
  by (auto simp: long_lines_def frame_of_def data_row_def list_all_iff intro: exI[of _ 0])

text \<open>
  C3. A file of 40 rows with valid timestamps, sampled with the default size 30: the
  candidates are the indices without the last 29, but the draw from them raises, so no
  start index is chosen and no window is returned.
\<close>

theorem no_window_is_drawn:
  "length long_lines = 40 \<and> start_candidates 40 = [0..<11] \<and>
   random_data_points example_world ''tmp/long.csv'' 30 = (Inl SampleFailure, example_world)"
  using random_data_points_draw_fails[OF read_long long_not_all_blank, of 30]
  by (simp add: long_lines_def start_candidates_eq)

section \<open>The two orchestrators\<close>

lemma process_file_body_fails:
  "\<exists>e. process_file_body w p = (Inl e, w)"
proof (cases "read_csv_with_headers w p")
  case (Inl e)
  then show ?thesis by (simp add: process_file_body_def)
next
  case (Inr df)
  obtain res where r: "random_data_points w p 30 = (res, w)"
    using random_data_points_world[of w p 30] by (cases "random_data_points w p 30") simp
  with random_data_points_never_returns[of w p 30] obtain e where "res = Inl e"
    by (cases res) auto
  with Inr r show ?thesis by (simp add: process_file_body_def)
qed

lemma process_file_body_log:
  "process_file_body w p = (Inl e, w') \<Longrightarrow> log w' = log w"
  using process_file_body_fails[of w p] by auto

lemma process_file_never_raises: "fst (process_file w p) = Inr ()"
  by (simp add: process_file_def split: prod.splits sum.splits)

lemma process_file_writes_nothing:
  "outputs (snd (process_file w p)) = outputs w \<and>
   (\<exists>e. log (snd (process_file w p)) = log w @ [ErrorProcessing p e])"
  using process_file_body_fails[of w p] by (auto simp: process_file_def)

lemma process_file_log:
  "\<exists>ev. log (snd (process_file w p)) = log w @ [ev] \<and> event_path ev = p"
  using process_file_writes_nothing[of w p] by auto


lemma process_each_log:
  "fst (process_each w d names) = Inr () \<and>
   map event_path (log (snd (process_each w d names)))
     = map event_path (log w) @ map (path_join d) (filter (\<lambda>f. endswith f ''.csv'') names)"
proof (induction names arbitrary: w)
  case Nil
  show ?case by simp
next
  case (Cons f fs)
  show ?case
  proof (cases "endswith f ''.csv''")
    case False
    with Cons.IH[of w] show ?thesis by simp
  next
    case True
    obtain res w' where pf: "process_file w (path_join d f) = (res, w')"
      by (cases "process_file w (path_join d f)")
    with process_file_never_raises[of w "path_join d f"] have res: "res = Inr ()" by simp
    from process_file_log[of w "path_join d f"] pf obtain ev where
      ev: "log w' = log w @ [ev]" "event_path ev = path_join d f" by auto
    from True pf res Cons.IH[of w'] ev show ?thesis by simp
  qed
qed

text \<open>
  C5. \<open>process_file\<close> never raises: an error of the body is printed with the path of the
  file. So when a directory has one or two eligible files, the run returns normally and
  has printed one line for each eligible file, in listing order, whatever happened to the
  files before it.
\<close>

theorem per_file_isolation:
  "fst (process_file w p) = Inr () \<and>
   (\<forall>e w'. process_file_body w p = (Inl e, w') \<longrightarrow>
            log (snd (process_file w p)) = log w @ [ErrorProcessing p e]) \<and>
   (\<forall>names. dirs w d = Some names \<longrightarrow>
      length (filter (\<lambda>f. endswith f ''.csv'') names) \<in> {1, 2} \<longrightarrow>
        fst (process_files_in_directory w d) = Inr () \<and>
        map event_path (log (snd (process_files_in_directory w d)))
          = map event_path (log w) @ map (path_join d) (filter (\<lambda>f. endswith f ''.csv'') names))"
proof (intro conjI allI impI)
  show "fst (process_file w p) = Inr ()" by (rule process_file_never_raises)
next
  fix e w' assume "process_file_body w p = (Inl e, w')"
  with process_file_body_log[OF this] show "log (snd (process_file w p)) = log w @ [ErrorProcessing p e]"
    by (simp add: process_file_def)
next
  fix names
  assume d: "dirs w d = Some names"
    and c: "length (filter (\<lambda>f. endswith f ''.csv'') names) \<in> {1, 2}"
  obtain res w' where pe: "process_each w d names = (res, w')" by (cases "process_each w d names")
  with process_each_log[of w d names] have res: "res = Inr ()" by simp
  from d c pe res show "fst (process_files_in_directory w d) = Inr ()"
    by (auto simp: process_files_in_directory_def listdir_def Let_def)
  from d c pe res process_each_log[of w d names]
  show "map event_path (log (snd (process_files_in_directory w d)))
          = map event_path (log w) @ map (path_join d) (filter (\<lambda>f. endswith f ''.csv'') names)"
    by (auto simp: process_files_in_directory_def listdir_def Let_def)
qed

text \<open>
  C6. A directory that does not exist fails with DirectoryNotFound; a count of eligible
  files other than 1 or 2 fails with InvalidFileCount. In both cases the error reaches the
  caller and the world is as it was: no file has been processed.
\<close>

theorem pre_loop_errors:
  "(dirs w d = None \<longrightarrow> files w d = None \<longrightarrow>
      process_files_in_directory w d = (Inl DirectoryNotFound, w)) \<and>
   (\<forall>names. dirs w d = Some names \<longrightarrow>
      length (filter (\<lambda>f. endswith f ''.csv'') names) \<notin> {1, 2} \<longrightarrow>
      process_files_in_directory w d
        = (Inl (InvalidFileCount (length (filter (\<lambda>f. endswith f ''.csv'') names))), w))"
  by (auto simp: process_files_in_directory_def listdir_def Let_def)


lemma frame_of_spike_not_blank:
  "\<not> list_all (\<lambda>r. timestamp r = Blank)
       (map (\<lambda>r. r\<lparr>timestamp := to_datetime (timestamp r)\<rparr>) (frame_of spike_lines))"
  by (simp add: spike_lines_def frame_of_def data_row_def)

lemma read_a: "read_csv_with_headers example_world ''data/a.csv'' = Inr (frame_of spike_lines)"
  by (simp add: read_csv_with_headers_def example_world_def)

lemma frame_of_spike_nonempty: "frame_of spike_lines \<noteq> []"
  by (simp add: spike_lines_def frame_of_def)



lemma csv_names:
  "endswith ''b.csv'' ''.csv''" "endswith ''a.csv'' ''.csv''" "\<not> endswith ''notes.txt'' ''.csv''"
  by (simp_all add: endswith_def)

theorem per_file_isolation_witness:
  "dirs example_world ''data'' = Some [''b.csv'', ''notes.txt'', ''a.csv''] \<and>
   length (filter (\<lambda>f. endswith f ''.csv'') [''b.csv'', ''notes.txt'', ''a.csv'']) \<in> {1, 2} \<and>
   process_file_body example_world ''data/b.csv'' = (Inl ReadFailure, example_world) \<and>
   log (snd (process_file example_world ''data/b.csv'')) = [ErrorProcessing ''data/b.csv'' ReadFailure] \<and>
   fst (process_files_in_directory example_world ''data'') = Inr () \<and>
   map event_path (log (snd (process_files_in_directory example_world ''data'')))
     = [''data/b.csv'', ''data/a.csv'']"
proof -
  have d: "dirs example_world ''data'' = Some [''b.csv'', ''notes.txt'', ''a.csv'']"
    by (simp add: example_world_def)
  have c: "length (filter (\<lambda>f. endswith f ''.csv'') [''b.csv'', ''notes.txt'', ''a.csv'']) \<in> {1, 2}"
    by (simp add: csv_names)
  have b: "process_file_body example_world ''data/b.csv'' = (Inl ReadFailure, example_world)"
    by (simp add: process_file_body_def read_csv_with_headers_def example_world_def)
  have l: "log example_world = []" by (simp add: example_world_def)
  from per_file_isolation[of example_world "''data/b.csv''" "''data''"] d c b l
  show ?thesis by (simp add: csv_names path_join_def)
qed

theorem pre_loop_errors_witness:
  "dirs example_world ''nowhere'' = None \<and> files example_world ''nowhere'' = None \<and>
   process_files_in_directory example_world ''nowhere'' = (Inl DirectoryNotFound, example_world) \<and>
   dirs example_world ''empty'' = Some [''notes.txt''] \<and>
   length (filter (\<lambda>f. endswith f ''.csv'') [''notes.txt'']) \<notin> {1, 2} \<and>
   process_files_in_directory example_world ''empty'' = (Inl (InvalidFileCount 0), example_world)"
proof -
  have a: "dirs example_world ''nowhere'' = None" "files example_world ''nowhere'' = None"
    "dirs example_world ''empty'' = Some [''notes.txt'']"
    by (simp_all add: example_world_def)
  from pre_loop_errors[of example_world "''nowhere''"] pre_loop_errors[of example_world "''empty''"] a
  show ?thesis by (simp add: csv_names)
qed


lemma read_csv_log_irrelevant:
  "read_csv_with_headers (w\<lparr>log := l\<rparr>) p = read_csv_with_headers w p"
  by (auto simp: read_csv_with_headers_def)

text \<open>
  A run over the directory: the first file cannot be parsed, the second fails at the draw;
  both are reported and the run returns.
\<close>

lemma directory_run:
  "log (snd (process_files_in_directory example_world ''data''))
     = [ErrorProcessing ''data/b.csv'' ReadFailure, ErrorProcessing ''data/a.csv'' SampleFailure]"
proof -
  let ?w1 = "example_world\<lparr>log := [ErrorProcessing ''data/b.csv'' ReadFailure]\<rparr>"
  have b: "process_file example_world ''data/b.csv'' = (Inr (), ?w1)"
    by (simp add: process_file_def process_file_body_def read_csv_with_headers_def example_world_def)
  have rd: "read_csv_with_headers ?w1 ''data/a.csv'' = Inr (frame_of spike_lines)"
    by (simp only: read_csv_log_irrelevant read_a)
  have "process_file_body ?w1 ''data/a.csv'' = (Inl SampleFailure, ?w1)"
    using random_data_points_draw_fails[OF rd frame_of_spike_not_blank, of 30]
      rd frame_of_spike_nonempty
    by (simp add: process_file_body_def)
  then have a: "process_file ?w1 ''data/a.csv'' =
      (Inr (), ?w1\<lparr>log := log ?w1 @ [ErrorProcessing ''data/a.csv'' SampleFailure]\<rparr>)"
    by (simp add: process_file_def)
  have d: "dirs example_world ''data'' = Some [''b.csv'', ''notes.txt'', ''a.csv'']"
    by (simp add: example_world_def)
  have pj: "path_join ''data'' ''b.csv'' = ''data/b.csv''" "path_join ''data'' ''a.csv'' = ''data/a.csv''"
    by (simp_all add: path_join_def)
  show ?thesis
    using a b d
    by (simp add: process_files_in_directory_def listdir_def csv_names pj Let_def)
qed

end
